theory Spec2Isabelle
  imports Main "HOL-Library.Word"
begin

section \<open>GusdXformWrapper (third\_party/houdini/lib/gusd/xformWrapper.cpp)\<close>

subsection \<open>The USD calls the wrapper makes\<close>

text \<open>
  \<^verbatim>\<open>xformWrapper.cpp\<close> calls into the USD stage (\<^verbatim>\<open>UsdStage\<close>, \<^verbatim>\<open>UsdPrim\<close>,
  \<^verbatim>\<open>UsdGeomXform\<close>, \<^verbatim>\<open>TF_WARN\<close>), which are defined elsewhere in USD.
  Those calls are parameters of the model: a record of functions over a stage state
  \<open>'s\<close> (what the \<^verbatim>\<open>UsdStagePtr\<close> points to) and prim handles \<open>'p\<close>
  (\<^verbatim>\<open>UsdPrim\<close>). A call that authors scene description returns the new stage state
  beside its result. Everything proved below holds for every such record.

  A token is its text and a path the list of its element names (the absolute root is
  the empty list); the wrapper only passes paths along.
\<close>

type_synonym TfToken = string
type_synonym SdfPath = "string list"

definition IsEmpty :: "TfToken \<Rightarrow> bool" where
  "IsEmpty t = (t = [])"

record ('s, 'p) UsdApi =
  GetPrimAtPath :: "'s \<Rightarrow> SdfPath \<Rightarrow> 'p"
  OverridePrim :: "'s \<Rightarrow> SdfPath \<Rightarrow> 'p \<times> 's"
  UsdGeomXform_Define :: "'s \<Rightarrow> SdfPath \<Rightarrow> 'p \<times> 's"
  IsValid :: "'s \<Rightarrow> 'p \<Rightarrow> bool"
  GetParent :: "'s \<Rightarrow> 'p \<Rightarrow> 'p"
  GetTypeName :: "'s \<Rightarrow> 'p \<Rightarrow> TfToken"
  GetPath :: "'s \<Rightarrow> 'p \<Rightarrow> SdfPath"
  Xformable_bool :: "'s \<Rightarrow> 'p \<Rightarrow> bool"
  TF_WARN :: "'s \<Rightarrow> string \<Rightarrow> string \<Rightarrow> SdfPath \<Rightarrow> 's"

text \<open>
  \<open>IsValid\<close> is \<^verbatim>\<open>UsdPrim::IsValid\<close> and the prim's conversion to \<^verbatim>\<open>bool\<close>
  (\<^verbatim>\<open>if( existing )\<close>, \<^verbatim>\<open>while( p && ...)\<close>); \<open>Xformable_bool\<close> is the conversion to
  \<^verbatim>\<open>bool\<close> of a \<^verbatim>\<open>UsdGeomXformable\<close> that holds the prim; \<open>UsdGeomXform_Define\<close>
  returns the prim of the \<^verbatim>\<open>UsdGeomXform\<close> that \<^verbatim>\<open>UsdGeomXform::Define\<close> returns;
  \<open>TF_WARN s fmt a path\<close> posts the warning with format \<open>fmt\<close>, first argument \<open>a\<close>
  and \<^verbatim>\<open>path.GetText()\<close> as second.

  A schema object (\<^verbatim>\<open>UsdGeomXformable\<close>, \<^verbatim>\<open>UsdGeomXform\<close>, \<^verbatim>\<open>UsdGeomImageable\<close>) is
  modelled by the prim it holds: \<open>Some p\<close> is the schema object on prim \<open>p\<close>, \<open>None\<close>
  the default-constructed one, which holds the invalid \<^verbatim>\<open>UsdPrim()\<close> and converts to
  \<^verbatim>\<open>false\<close>. Likewise a prim that a schema object gives back is \<open>Some p\<close>, or \<open>None\<close>
  for \<^verbatim>\<open>UsdPrim()\<close>, which is not valid.
\<close>

definition schema_bool :: "('s, 'p) UsdApi \<Rightarrow> 's \<Rightarrow> 'p option \<Rightarrow> bool" where
  "schema_bool api stage x = (case x of None \<Rightarrow> False | Some p \<Rightarrow> Xformable_bool api stage p)"

definition GetPrim :: "'p option \<Rightarrow> 'p option" where
  "GetPrim x = x"

definition UsdGeomXform :: "'p option \<Rightarrow> 'p option" where
  "UsdGeomXform prim = prim"

definition prim_IsValid :: "('s, 'p) UsdApi \<Rightarrow> 's \<Rightarrow> 'p option \<Rightarrow> bool" where
  "prim_IsValid api stage prim = (case prim of None \<Rightarrow> False | Some p \<Rightarrow> IsValid api stage p)"

subsection \<open>The wrapper object\<close>

text \<open>
  The members set in \<^verbatim>\<open>xformWrapper.cpp\<close>. \<open>groupBase\<close> is the
  \<^verbatim>\<open>GusdGroupBaseWrapper\<close> sub-object (the class is defined elsewhere, so its type is
  a parameter); \<open>m_usdXformForRead\<close> is a \<^verbatim>\<open>GusdUSD_XformHolder\<close>, a
  \<^verbatim>\<open>UsdGeomXform\<close> with a lock (\<open>None\<close>: default-constructed); \<open>m_stageProxy\<close> is a
  handle (\<open>None\<close>: the null handle).
\<close>

record ('b, 'p, 'l, 'x) GusdXformWrapper =
  groupBase :: 'b
  m_usdXformForWrite :: "'p option"
  m_usdXformForRead :: "('p option \<times> 'l) option"
  m_stageProxy :: "'x option"

text \<open>Of \<^verbatim>\<open>GusdContext\<close> the file reads one member.\<close>

record GusdContext =
  overlayGeo :: bool

subsection \<open>initUsdPrim (lines 85-119)\<close>

text \<open>
  The loop of lines 106-109:
  \<^verbatim>\<open>while( p && p.GetTypeName().IsEmpty() ) {
      UsdGeomXform::Define( stage, p.GetPath() );
      p = p.GetParent();
  }\<close>
  Nothing in this file bounds the walk, so the model is a partial function: \<open>None\<close> is
  a walk that never ends.
\<close>

partial_function (option) defineAncestors ::
  "('s, 'p) UsdApi \<Rightarrow> 's \<Rightarrow> 'p \<Rightarrow> 's option" where
  "defineAncestors api stage p =
     (if IsValid api stage p \<and> IsEmpty (GetTypeName api stage p)
      then (let stage' = snd (UsdGeomXform_Define api stage (GetPath api stage p))
            in defineAncestors api stage' (GetParent api stage' p))
      else Some stage)"

declare defineAncestors.simps [code]

text \<open>
  Lines 115-117:
  \<^verbatim>\<open>if( !m_usdXformForWrite || !m_usdXformForWrite.GetPrim().IsValid() ) {
      TF_WARN( "Unable to create %s xform '%s'.", newPrim ? "new" : "override", path.GetText() );
  }\<close>
\<close>

definition warnIfInvalid ::
  "('s, 'p) UsdApi \<Rightarrow> 's \<Rightarrow> 'p option \<Rightarrow> bool \<Rightarrow> SdfPath \<Rightarrow> 's" where
  "warnIfInvalid api stage x newPrim path =
     (if \<not> schema_bool api stage x \<or> \<not> prim_IsValid api stage (GetPrim x)
      then TF_WARN api stage ''Unable to create %s xform '%s'.''
             (if newPrim then ''new'' else ''override'') path
      else stage)"

text \<open>
  \<open>initUsdPrim api stage w path asOverride\<close> returns the \<^verbatim>\<open>bool\<close> the method
  returns, the wrapper after the call and the stage after the call.
\<close>

definition initUsdPrim ::
  "('s, 'p) UsdApi \<Rightarrow> 's \<Rightarrow> ('b, 'p, 'l, 'x) GusdXformWrapper \<Rightarrow> SdfPath \<Rightarrow> bool
     \<Rightarrow> (bool \<times> ('b, 'p, 'l, 'x) GusdXformWrapper \<times> 's) option" where
  "initUsdPrim api stage w path asOverride =
     (case
        (if asOverride then
           (let existing = GetPrimAtPath api stage path in
            if IsValid api stage existing then
              (let (prim, stage1) = OverridePrim api stage path
               in Some (w\<lparr>m_usdXformForWrite := Some prim\<rparr>, False, stage1))
            else
              (let (prim, stage1) = UsdGeomXform_Define api stage path;
                   p = GetParent api stage1 prim
               in case defineAncestors api stage1 p of
                    None \<Rightarrow> None
                  | Some stage2 \<Rightarrow> Some (w\<lparr>m_usdXformForWrite := Some prim\<rparr>, True, stage2)))
         else
           (let (prim, stage1) = UsdGeomXform_Define api stage path
            in Some (w\<lparr>m_usdXformForWrite := Some prim\<rparr>, True, stage1)))
      of
        None \<Rightarrow> None
      | Some (w1, newPrim, stage3) \<Rightarrow>
          (let stage4 = warnIfInvalid api stage3 (m_usdXformForWrite w1) newPrim path
           in Some (schema_bool api stage4 (m_usdXformForWrite w1), w1, stage4)))"

subsection \<open>Constructors and factories (lines 55-72, 121-157)\<close>

text \<open>
  The write constructor default-constructs every member and runs \<open>initUsdPrim\<close>,
  dropping its result. \<open>base0\<close> is the default-constructed \<^verbatim>\<open>GusdGroupBaseWrapper\<close>.
\<close>

definition GusdXformWrapper_forWrite ::
  "('s, 'p) UsdApi \<Rightarrow> 'b \<Rightarrow> 's \<Rightarrow> SdfPath \<Rightarrow> bool
     \<Rightarrow> (('b, 'p, 'l, 'x) GusdXformWrapper \<times> 's) option" where
  "GusdXformWrapper_forWrite api base0 stage path isOverride =
     (case initUsdPrim api stage
             \<lparr>groupBase = base0, m_usdXformForWrite = None,
              m_usdXformForRead = None, m_stageProxy = None\<rparr> path isOverride of
        None \<Rightarrow> None
      | Some (r, w, stage') \<Rightarrow> Some (w, stage'))"

text \<open>
  The read constructor: \<open>baseCtor\<close> is \<^verbatim>\<open>GusdGroupBaseWrapper( time, purposes )\<close> and
  \<open>GetLock\<close> is \<^verbatim>\<open>stage->GetLock()\<close> of the stage proxy.
\<close>

definition GusdXformWrapper_forRead ::
  "('t \<Rightarrow> 'u \<Rightarrow> 'b) \<Rightarrow> ('x \<Rightarrow> 'l) \<Rightarrow> 'x \<Rightarrow> 'p option \<Rightarrow> 't \<Rightarrow> 'u
     \<Rightarrow> ('b, 'p, 'l, 'x) GusdXformWrapper" where
  "GusdXformWrapper_forRead baseCtor GetLock stage usdXform time purposes =
     \<lparr>groupBase = baseCtor time purposes, m_usdXformForWrite = None,
      m_usdXformForRead = Some (usdXform, GetLock stage), m_stageProxy = Some stage\<rparr>"

definition defineForWrite ::
  "('s, 'p) UsdApi \<Rightarrow> 'b \<Rightarrow> 'g \<Rightarrow> 's \<Rightarrow> SdfPath \<Rightarrow> 'c GusdContext_scheme
     \<Rightarrow> (('b, 'p, 'l, 'x) GusdXformWrapper \<times> 's) option" where
  "defineForWrite api base0 sourcePrim stage path ctxt =
     GusdXformWrapper_forWrite api base0 stage path (overlayGeo ctxt)"

text \<open>\<open>sourcePrim\<close> is a \<^verbatim>\<open>UsdGeomImageable\<close>.\<close>

definition defineForRead ::
  "('t \<Rightarrow> 'u \<Rightarrow> 'b) \<Rightarrow> ('x \<Rightarrow> 'l) \<Rightarrow> 'x \<Rightarrow> 'p option \<Rightarrow> 't \<Rightarrow> 'u
     \<Rightarrow> ('b, 'p, 'l, 'x) GusdXformWrapper" where
  "defineForRead baseCtor GetLock stage sourcePrim time purposes =
     GusdXformWrapper_forRead baseCtor GetLock stage (UsdGeomXform (GetPrim sourcePrim))
       time purposes"

text \<open>\<open>clearCaches\<close> is the base class's, acting on the base sub-object.\<close>

definition redefine ::
  "('s, 'p) UsdApi \<Rightarrow> ('b \<Rightarrow> 'b) \<Rightarrow> 's \<Rightarrow> ('b, 'p, 'l, 'x) GusdXformWrapper \<Rightarrow> SdfPath
     \<Rightarrow> 'c GusdContext_scheme \<Rightarrow> 'g
     \<Rightarrow> (bool \<times> ('b, 'p, 'l, 'x) GusdXformWrapper \<times> 's) option" where
  "redefine api clearCaches stage w path ctxt sourcePrim =
     (case initUsdPrim api stage w path (overlayGeo ctxt) of
        None \<Rightarrow> None
      | Some (r, w1, stage1) \<Rightarrow>
          Some (True, w1\<lparr>groupBase := clearCaches (groupBase w1)\<rparr>, stage1))"

subsection \<open>The remaining methods (lines 174-250)\<close>

text \<open>
  \<^verbatim>\<open>enlargeBounds\<close> gets the array by pointer; the model returns the array after the
  call. \<^verbatim>\<open>int\<close> is a 32-bit word, \<^verbatim>\<open>int64\<close> a 64-bit word.
\<close>

definition enlargeBounds ::
  "('b, 'p, 'l, 'x) GusdXformWrapper \<Rightarrow> 'box list \<Rightarrow> 32 word \<Rightarrow> 'box list" where
  "enlargeBounds w boxes nsegments = boxes"

definition getMotionSegments :: "('b, 'p, 'l, 'x) GusdXformWrapper \<Rightarrow> 32 word" where
  "getMotionSegments w = 1"

definition getMemoryUsage :: "('b, 'p, 'l, 'x) GusdXformWrapper \<Rightarrow> 64 word" where
  "getMemoryUsage w = 0"

text \<open>Line 207: \<^verbatim>\<open>return m_usdXformForWrite || m_usdXformForWrite;\<close>\<close>

definition isValid ::
  "('s, 'p) UsdApi \<Rightarrow> 's \<Rightarrow> ('b, 'p, 'l, 'x) GusdXformWrapper \<Rightarrow> bool" where
  "isValid api stage w =
     (schema_bool api stage (m_usdXformForWrite w) \<or> schema_bool api stage (m_usdXformForWrite w))"

text \<open>
  \<open>updateGroupFromGTPrim\<close> is the base class's method: it gets the stage, the base
  sub-object, the destination Xformable and the four arguments, and returns its
  \<^verbatim>\<open>bool\<close> with the stage, the base sub-object and the transform cache after the call.
  The \<^verbatim>\<open>DBG\<close> line prints in debug builds only and is left out.
\<close>

definition updateFromGTPrim ::
  "('s, 'p) UsdApi
     \<Rightarrow> ('s \<Rightarrow> 'b \<Rightarrow> 'p option \<Rightarrow> 'g \<Rightarrow> 'm \<Rightarrow> 'c GusdContext_scheme \<Rightarrow> 'k \<Rightarrow> bool \<times> 's \<times> 'b \<times> 'k)
     \<Rightarrow> 's \<Rightarrow> ('b, 'p, 'l, 'x) GusdXformWrapper \<Rightarrow> 'g \<Rightarrow> 'm \<Rightarrow> 'c GusdContext_scheme \<Rightarrow> 'k
     \<Rightarrow> bool \<times> 's \<times> ('b, 'p, 'l, 'x) GusdXformWrapper \<times> 'k" where
  "updateFromGTPrim api updateGroupFromGTPrim stage w sourcePrim localXform ctxt xformCache =
     (if \<not> schema_bool api stage (m_usdXformForWrite w) then (False, stage, w, xformCache)
      else
        (let (r, stage1, base1, xformCache1) =
               updateGroupFromGTPrim stage (groupBase w) (m_usdXformForWrite w)
                 sourcePrim localXform ctxt xformCache
         in (r, stage1, w\<lparr>groupBase := base1\<rparr>, xformCache1)))"

section \<open>HdMesh (pxr/imaging/lib/hd/mesh.h)\<close>

text \<open>
  The inline accessors of lines 120-160 call the scene delegate and the base class
  \<^verbatim>\<open>HdRprim\<close>; both are defined elsewhere in Hydra, so both are parameters.
  A delegate is the record of its (virtual, non-const) methods over its own state
  \<open>'d\<close>: each returns its value and the delegate's state after the call.
  \<^verbatim>\<open>HdCullStyle\<close>, \<^verbatim>\<open>HdMeshTopology\<close>, \<^verbatim>\<open>PxOsdSubdivTags\<close> and \<^verbatim>\<open>VtValue\<close> are type
  parameters.
\<close>

record ('d, 'cull, 'topo, 'tags) HdSceneDelegate =
  GetDoubleSided :: "'d \<Rightarrow> SdfPath \<Rightarrow> bool \<times> 'd"
  GetCullStyle :: "'d \<Rightarrow> SdfPath \<Rightarrow> 'cull \<times> 'd"
  GetMeshTopology :: "'d \<Rightarrow> SdfPath \<Rightarrow> 'topo \<times> 'd"
  GetRefineLevel :: "'d \<Rightarrow> SdfPath \<Rightarrow> 32 word \<times> 'd"
  GetSubdivTags :: "'d \<Rightarrow> SdfPath \<Rightarrow> 'tags \<times> 'd"

text \<open>
  What the accessors use of \<^verbatim>\<open>HdRprim\<close>: \<^verbatim>\<open>GetId()\<close> and
  \<^verbatim>\<open>GetPrimVar(delegate, name)\<close>, both const methods of the mesh \<open>'m\<close>.
\<close>

record ('m, 'd, 'v) HdRprim =
  GetId :: "'m \<Rightarrow> SdfPath"
  GetPrimVar :: "'m \<Rightarrow> 'd \<Rightarrow> TfToken \<Rightarrow> 'v \<times> 'd"

text \<open>The two tokens of \<^verbatim>\<open>HdTokens\<close> that the file names.\<close>

record HdTokens_t =
  points :: TfToken
  normals :: TfToken

text \<open>
  What an accessor could touch: the mesh it is called on, the static member
  \<^verbatim>\<open>_reprDescConfig\<close> (its type \<open>'cfg\<close> is defined elsewhere) and the delegate behind
  the pointer it is given.
\<close>

record ('m, 'cfg, 'd) HdWorld =
  mesh :: 'm
  reprDescConfig :: 'cfg
  delegate :: 'd

definition HdMesh_IsDoubleSided ::
  "('m, 'd, 'v) HdRprim \<Rightarrow> ('d, 'cull, 'topo, 'tags) HdSceneDelegate
     \<Rightarrow> ('m, 'cfg, 'd) HdWorld \<Rightarrow> bool \<times> ('m, 'cfg, 'd) HdWorld" where
  "HdMesh_IsDoubleSided rprim dl W =
     (let (r, d') = GetDoubleSided dl (delegate W) (GetId rprim (mesh W))
      in (r, W\<lparr>delegate := d'\<rparr>))"

definition HdMesh_GetCullStyle ::
  "('m, 'd, 'v) HdRprim \<Rightarrow> ('d, 'cull, 'topo, 'tags) HdSceneDelegate
     \<Rightarrow> ('m, 'cfg, 'd) HdWorld \<Rightarrow> 'cull \<times> ('m, 'cfg, 'd) HdWorld" where
  "HdMesh_GetCullStyle rprim dl W =
     (let (r, d') = GetCullStyle dl (delegate W) (GetId rprim (mesh W))
      in (r, W\<lparr>delegate := d'\<rparr>))"

definition HdMesh_GetMeshTopology ::
  "('m, 'd, 'v) HdRprim \<Rightarrow> ('d, 'cull, 'topo, 'tags) HdSceneDelegate
     \<Rightarrow> ('m, 'cfg, 'd) HdWorld \<Rightarrow> 'topo \<times> ('m, 'cfg, 'd) HdWorld" where
  "HdMesh_GetMeshTopology rprim dl W =
     (let (r, d') = GetMeshTopology dl (delegate W) (GetId rprim (mesh W))
      in (r, W\<lparr>delegate := d'\<rparr>))"

definition HdMesh_GetRefineLevel ::
  "('m, 'd, 'v) HdRprim \<Rightarrow> ('d, 'cull, 'topo, 'tags) HdSceneDelegate
     \<Rightarrow> ('m, 'cfg, 'd) HdWorld \<Rightarrow> 32 word \<times> ('m, 'cfg, 'd) HdWorld" where
  "HdMesh_GetRefineLevel rprim dl W =
     (let (r, d') = GetRefineLevel dl (delegate W) (GetId rprim (mesh W))
      in (r, W\<lparr>delegate := d'\<rparr>))"

definition HdMesh_GetSubdivTags ::
  "('m, 'd, 'v) HdRprim \<Rightarrow> ('d, 'cull, 'topo, 'tags) HdSceneDelegate
     \<Rightarrow> ('m, 'cfg, 'd) HdWorld \<Rightarrow> 'tags \<times> ('m, 'cfg, 'd) HdWorld" where
  "HdMesh_GetSubdivTags rprim dl W =
     (let (r, d') = GetSubdivTags dl (delegate W) (GetId rprim (mesh W))
      in (r, W\<lparr>delegate := d'\<rparr>))"

definition HdMesh_GetPoints ::
  "('m, 'd, 'v) HdRprim \<Rightarrow> HdTokens_t \<Rightarrow> ('m, 'cfg, 'd) HdWorld
     \<Rightarrow> 'v \<times> ('m, 'cfg, 'd) HdWorld" where
  "HdMesh_GetPoints rprim HdTokens W =
     (let (v, d') = GetPrimVar rprim (mesh W) (delegate W) (points HdTokens)
      in (v, W\<lparr>delegate := d'\<rparr>))"

definition HdMesh_GetNormals ::
  "('m, 'd, 'v) HdRprim \<Rightarrow> HdTokens_t \<Rightarrow> ('m, 'cfg, 'd) HdWorld
     \<Rightarrow> 'v \<times> ('m, 'cfg, 'd) HdWorld" where
  "HdMesh_GetNormals rprim HdTokens W =
     (let (v, d') = GetPrimVar rprim (mesh W) (delegate W) (normals HdTokens)
      in (v, W\<lparr>delegate := d'\<rparr>))"

section \<open>The walk up the ancestors, as a relation\<close>

text \<open>
  \<open>walks_up api s p qs s'\<close>: starting at prim \<open>p\<close> on stage \<open>s\<close>, an Xform is defined
  at each ancestor in turn, \<open>p\<close> first and then upwards, for as long as the ancestor is
  valid and has an empty type name; \<open>qs\<close> are the paths defined, in order, and \<open>s'\<close>
  is the stage afterwards. The walk ends at the first ancestor that is invalid or has
  a type name, and nothing above it is defined.
\<close>

inductive walks_up ::
  "('s, 'p) UsdApi \<Rightarrow> 's \<Rightarrow> 'p \<Rightarrow> SdfPath list \<Rightarrow> 's \<Rightarrow> bool" for api where
  stop: "\<not> (IsValid api s p \<and> IsEmpty (GetTypeName api s p)) \<Longrightarrow> walks_up api s p [] s"
| step: "IsValid api s p \<Longrightarrow> IsEmpty (GetTypeName api s p) \<Longrightarrow>
         s1 = snd (UsdGeomXform_Define api s (GetPath api s p)) \<Longrightarrow>
         walks_up api s1 (GetParent api s1 p) qs s' \<Longrightarrow>
         walks_up api s p (GetPath api s p # qs) s'"

section \<open>A stage to run the model on\<close>

text \<open>
  For the concrete runs below: a stage that holds the type name of each of its prims
  (the pseudo-root, path \<open>[]\<close>, is always there and has no type name) and the warnings
  posted so far. A prim handle is \<open>Some\<close> path, or \<open>None\<close> for \<^verbatim>\<open>UsdPrim()\<close>. Defining
  or overriding a prim brings its missing ancestors into being without a type name and
  leaves the prims that exist as they are; a path with an empty element name is
  refused.
\<close>

record mem_stage =
  prims :: "(SdfPath \<times> TfToken) list"
  warnings :: "(string \<times> string \<times> SdfPath) list"

definition mem_exists :: "mem_stage \<Rightarrow> SdfPath \<Rightarrow> bool" where
  "mem_exists s q = (q = [] \<or> map_of (prims s) q \<noteq> None)"

definition mem_ensure :: "SdfPath \<Rightarrow> mem_stage \<Rightarrow> mem_stage" where
  "mem_ensure q s = (if mem_exists s q then s else s\<lparr>prims := (q, []) # prims s\<rparr>)"

definition mem_ancestors :: "SdfPath \<Rightarrow> SdfPath list" where
  "mem_ancestors q = map (\<lambda>n. take n q) [1..<length q]"

definition mem_Define :: "mem_stage \<Rightarrow> SdfPath \<Rightarrow> SdfPath option \<times> mem_stage" where
  "mem_Define s q =
     (if q = [] then (Some [], s)
      else if [] \<in> set q then (None, s)
      else (let s1 = fold mem_ensure (mem_ancestors q) s
            in (Some q, s1\<lparr>prims := (q, ''Xform'') # prims s1\<rparr>)))"

definition mem_Override :: "mem_stage \<Rightarrow> SdfPath \<Rightarrow> SdfPath option \<times> mem_stage" where
  "mem_Override s q =
     (if [] \<in> set q then (None, s)
      else (Some q, fold mem_ensure (mem_ancestors q @ [q]) s))"

definition mem_IsValid :: "mem_stage \<Rightarrow> SdfPath option \<Rightarrow> bool" where
  "mem_IsValid s h = (case h of None \<Rightarrow> False | Some q \<Rightarrow> mem_exists s q)"

definition memApi :: "(mem_stage, SdfPath option) UsdApi" where
  "memApi =
     \<lparr>GetPrimAtPath = (\<lambda>s q. if mem_exists s q then Some q else None),
      OverridePrim = mem_Override,
      UsdGeomXform_Define = mem_Define,
      IsValid = mem_IsValid,
      GetParent = (\<lambda>s h. case h of None \<Rightarrow> None
                   | Some q \<Rightarrow> if q = [] then None else Some (butlast q)),
      GetTypeName = (\<lambda>s h. case h of None \<Rightarrow> []
                   | Some q \<Rightarrow> (case map_of (prims s) q of None \<Rightarrow> [] | Some t \<Rightarrow> t)),
      GetPath = (\<lambda>s h. case h of None \<Rightarrow> [] | Some q \<Rightarrow> q),
      Xformable_bool = mem_IsValid,
      TF_WARN = (\<lambda>s fmt a q. s\<lparr>warnings := warnings s @ [(fmt, a, q)]\<rparr>)\<rparr>"

text \<open>The depth of a handle in the namespace: the walk up strictly decreases it.\<close>

definition mem_depth :: "SdfPath option \<Rightarrow> nat" where
  "mem_depth h = (case h of None \<Rightarrow> 0 | Some q \<Rightarrow> Suc (length q))"

text \<open>
  A stage with an untyped prim \<^verbatim>\<open>/a\<close> above a typed prim \<^verbatim>\<open>/a/b\<close> (in USD:
  \<^verbatim>\<open>over "a" { def Scope "b" {} }\<close>), and a wrapper whose members are all
  default-constructed.
\<close>

definition demo_stage :: mem_stage where
  "demo_stage = \<lparr>prims = [([''a''], []), ([''a'', ''b''], ''Scope'')], warnings = []\<rparr>"

definition demo_wrapper :: "(nat, SdfPath option, unit, unit) GusdXformWrapper" where
  "demo_wrapper =
     \<lparr>groupBase = 0, m_usdXformForWrite = None, m_usdXformForRead = None, m_stageProxy = None\<rparr>"

section \<open>Results\<close>

subsection \<open>The walk up the ancestors\<close>

text \<open>The two ways the loop of lines 106-109 unfolds.\<close>

lemma defineAncestors_stop:
  "\<not> (IsValid api s p \<and> IsEmpty (GetTypeName api s p)) \<Longrightarrow> defineAncestors api s p = Some s"
  by (subst defineAncestors.simps) auto

lemma defineAncestors_step:
  "IsValid api s p \<Longrightarrow> IsEmpty (GetTypeName api s p) \<Longrightarrow>
   defineAncestors api s p =
     defineAncestors api (snd (UsdGeomXform_Define api s (GetPath api s p)))
       (GetParent api (snd (UsdGeomXform_Define api s (GetPath api s p))) p)"
  by (subst defineAncestors.simps) (simp add: Let_def)

text \<open>
  The loop ends whenever the parent of a valid prim lies strictly less deep than the
  prim, whatever the stage: \<open>depth\<close> is any measure of that.
\<close>

lemma defineAncestors_terminates:
  fixes depth :: "'p \<Rightarrow> nat"
  assumes up: "\<And>s s' q. IsValid api s q \<Longrightarrow> depth (GetParent api s' q) < depth q"
  shows "\<exists>s'. defineAncestors api s p = Some s'"
proof (induction "depth p" arbitrary: p s rule: less_induct)
  case less
  show ?case
  proof (cases "IsValid api s p \<and> IsEmpty (GetTypeName api s p)")
    case True
    let ?s1 = "snd (UsdGeomXform_Define api s (GetPath api s p))"
    from True up have "depth (GetParent api ?s1 p) < depth p" by blast
    from less[OF this] obtain s' where "defineAncestors api ?s1 (GetParent api ?s1 p) = Some s'"
      by blast
    with True show ?thesis by (simp add: defineAncestors_step)
  next
    case False
    then show ?thesis by (simp add: defineAncestors_stop)
  qed
qed

text \<open>The loop and the relation \<open>walks_up\<close> describe the same walk.\<close>

lemma walks_up_defineAncestors:
  "walks_up api s p qs s' \<Longrightarrow> defineAncestors api s p = Some s'"
proof (induction rule: walks_up.induct)
  case (stop s p)
  then show ?case by (simp add: defineAncestors_stop)
next
  case (step s p s1 qs s')
  then show ?case by (simp add: defineAncestors_step)
qed

lemma defineAncestors_walks_up:
  assumes "defineAncestors api s p = Some s'"
  shows "\<exists>qs. walks_up api s p qs s'"
  using assms
proof (induct api s p s' rule: defineAncestors.raw_induct [rotated 1, consumes 1])
  case (1 f api s p s')
  show ?case
  proof (cases "IsValid api s p \<and> IsEmpty (GetTypeName api s p)")
    case True
    let ?s1 = "snd (UsdGeomXform_Define api s (GetPath api s p))"
    from 1(2) True have "f api ?s1 (GetParent api ?s1 p) = Some s'" by (simp add: Let_def)
    from 1(1)[OF this] obtain qs where "walks_up api ?s1 (GetParent api ?s1 p) qs s'" by blast
    with True have "walks_up api s p (GetPath api s p # qs) s'"
      by (intro walks_up.step) auto
    then show ?thesis by blast
  next
    case False
    with 1(2) have "s' = s" by auto
    with False show ?thesis by (auto intro: walks_up.stop)
  qed
qed

lemma walks_up_deterministic:
  "walks_up api s p qs s' \<Longrightarrow> walks_up api s p qs' s'' \<Longrightarrow> qs' = qs \<and> s'' = s'"
proof (induction arbitrary: qs' s'' rule: walks_up.induct)
  case (stop s p)
  from stop(2) stop(1) show ?case by (cases rule: walks_up.cases) auto
next
  case (step s p s1 qs s')
  from step(6) show ?case
  proof (cases rule: walks_up.cases)
    case stop
    with step(1,2) show ?thesis by simp
  next
    case (step s1' qs0)
    with step.IH[of qs0 s''] step.hyps show ?thesis by simp
  qed
qed

subsection \<open>initUsdPrim\<close>

lemma initUsdPrim_override_existing:
  "asOverride \<Longrightarrow> IsValid api stage (GetPrimAtPath api stage path) \<Longrightarrow>
   initUsdPrim api stage w path asOverride =
     (let po = fst (OverridePrim api stage path);
          s' = warnIfInvalid api (snd (OverridePrim api stage path)) (Some po) False path
      in Some (schema_bool api s' (Some po), w\<lparr>m_usdXformForWrite := Some po\<rparr>, s'))"
  by (simp add: initUsdPrim_def Let_def split_beta)

lemma initUsdPrim_not_override:
  "\<not> asOverride \<Longrightarrow>
   initUsdPrim api stage w path asOverride =
     (let pd = fst (UsdGeomXform_Define api stage path);
          s' = warnIfInvalid api (snd (UsdGeomXform_Define api stage path)) (Some pd) True path
      in Some (schema_bool api s' (Some pd), w\<lparr>m_usdXformForWrite := Some pd\<rparr>, s'))"
  by (simp add: initUsdPrim_def Let_def split_beta)

lemma initUsdPrim_override_new:
  "asOverride \<Longrightarrow> \<not> IsValid api stage (GetPrimAtPath api stage path) \<Longrightarrow>
   initUsdPrim api stage w path asOverride =
     (let pd = fst (UsdGeomXform_Define api stage path);
          sd = snd (UsdGeomXform_Define api stage path)
      in case defineAncestors api sd (GetParent api sd pd) of
           None \<Rightarrow> None
         | Some s2 \<Rightarrow>
             (let s' = warnIfInvalid api s2 (Some pd) True path
              in Some (schema_bool api s' (Some pd), w\<lparr>m_usdXformForWrite := Some pd\<rparr>, s')))"
  by (simp add: initUsdPrim_def Let_def split_beta split: option.splits)

lemma initUsdPrim_returns:
  fixes depth :: "'p \<Rightarrow> nat"
  assumes up: "\<And>s s' q. IsValid api s q \<Longrightarrow> depth (GetParent api s' q) < depth q"
  shows "\<exists>r w' s'. initUsdPrim api stage w path asOverride = Some (r, w', s')"
proof (cases "asOverride \<and> \<not> IsValid api stage (GetPrimAtPath api stage path)")
  case True
  let ?sd = "snd (UsdGeomXform_Define api stage path)"
  let ?pd = "fst (UsdGeomXform_Define api stage path)"
  from defineAncestors_terminates[of api depth ?sd "GetParent api ?sd ?pd"] up
  obtain s2 where "defineAncestors api ?sd (GetParent api ?sd ?pd) = Some s2" by blast
  with True show ?thesis by (simp add: initUsdPrim_override_new Let_def)
next
  case False
  then show ?thesis
    by (cases asOverride) (simp_all add: initUsdPrim_override_existing initUsdPrim_not_override Let_def)
qed

lemma initUsdPrim_result_bool:
  "initUsdPrim api stage w path asOverride = Some (r, w', s') \<Longrightarrow>
   r = schema_bool api s' (m_usdXformForWrite w')"
  by (auto simp: initUsdPrim_def Let_def split_beta split: if_splits option.splits)

lemma mem_depth_decreases:
  "IsValid memApi s q \<Longrightarrow> mem_depth (GetParent memApi s' q) < mem_depth q"
  by (cases q) (auto simp: memApi_def mem_IsValid_def mem_depth_def)

text \<open>
  What \<^verbatim>\<open>initUsdPrim\<close> does, case by case:
  \<^item> with \<open>asOverride\<close> and a valid prim at \<open>path\<close>, the write-side Xformable is on
    the prim \<^verbatim>\<open>stage->OverridePrim( path )\<close> returns, and the stage is the one that call
    leaves (after the warning, if any): no Xform is defined;
  \<^item> without \<open>asOverride\<close>, the write-side Xformable is on the prim
    \<^verbatim>\<open>UsdGeomXform::Define( stage, path )\<close> returns, and nothing else is authored;
  \<^item> with \<open>asOverride\<close> and no valid prim at \<open>path\<close>, the Xform is defined at
    \<open>path\<close> and then the method walks up from the parent of the new prim, defining an
    Xform at each ancestor in turn for as long as that ancestor is valid and has an empty
    type name; it stops at the first ancestor that is invalid or has a type name and
    leaves everything above it alone (\<open>walks_up\<close>); the method returns exactly when
    that walk ends;
  \<^item> the walk ends, and the method returns, on every stage where the parent of a valid
    prim is less deep than the prim;
  \<^item> whenever it returns, it returns \<^verbatim>\<open>true\<close> exactly if the write-side Xformable it
    leaves converts to \<^verbatim>\<open>true\<close> on the stage it leaves.
\<close>

theorem initUsdPrim_cases:
  fixes depth :: "'p \<Rightarrow> nat"
  shows
  "(asOverride \<and> IsValid api stage (GetPrimAtPath api stage path) \<longrightarrow>
      (let po = fst (OverridePrim api stage path);
           s' = warnIfInvalid api (snd (OverridePrim api stage path)) (Some po) False path
       in initUsdPrim api stage w path asOverride =
            Some (schema_bool api s' (Some po), w\<lparr>m_usdXformForWrite := Some po\<rparr>, s')))
   \<and> (\<not> asOverride \<longrightarrow>
      (let pd = fst (UsdGeomXform_Define api stage path);
           s' = warnIfInvalid api (snd (UsdGeomXform_Define api stage path)) (Some pd) True path
       in initUsdPrim api stage w path asOverride =
            Some (schema_bool api s' (Some pd), w\<lparr>m_usdXformForWrite := Some pd\<rparr>, s')))
   \<and> (asOverride \<and> \<not> IsValid api stage (GetPrimAtPath api stage path) \<longrightarrow>
      (let pd = fst (UsdGeomXform_Define api stage path);
           sd = snd (UsdGeomXform_Define api stage path)
       in (\<forall>r w' s'.
             initUsdPrim api stage w path asOverride = Some (r, w', s') \<longleftrightarrow>
               (\<exists>qs s2. walks_up api sd (GetParent api sd pd) qs s2
                  \<and> s' = warnIfInvalid api s2 (Some pd) True path)
               \<and> w' = w\<lparr>m_usdXformForWrite := Some pd\<rparr>
               \<and> r = schema_bool api s' (Some pd))))
   \<and> ((\<forall>s s' q. IsValid api s q \<longrightarrow> depth (GetParent api s' q) < depth q) \<longrightarrow>
        (\<exists>r w' s'. initUsdPrim api stage w path asOverride = Some (r, w', s')))
   \<and> (\<forall>r w' s'. initUsdPrim api stage w path asOverride = Some (r, w', s') \<longrightarrow>
        r = schema_bool api s' (m_usdXformForWrite w'))"
proof (intro conjI impI)
  assume "asOverride \<and> IsValid api stage (GetPrimAtPath api stage path)"
  then show "let po = fst (OverridePrim api stage path);
           s' = warnIfInvalid api (snd (OverridePrim api stage path)) (Some po) False path
       in initUsdPrim api stage w path asOverride =
            Some (schema_bool api s' (Some po), w\<lparr>m_usdXformForWrite := Some po\<rparr>, s')"
    by (simp add: initUsdPrim_override_existing)
next
  assume "\<not> asOverride"
  then show "let pd = fst (UsdGeomXform_Define api stage path);
           s' = warnIfInvalid api (snd (UsdGeomXform_Define api stage path)) (Some pd) True path
       in initUsdPrim api stage w path asOverride =
            Some (schema_bool api s' (Some pd), w\<lparr>m_usdXformForWrite := Some pd\<rparr>, s')"
    by (simp add: initUsdPrim_not_override)
next
  assume c: "asOverride \<and> \<not> IsValid api stage (GetPrimAtPath api stage path)"
  let ?pd = "fst (UsdGeomXform_Define api stage path)"
  let ?sd = "snd (UsdGeomXform_Define api stage path)"
  have "initUsdPrim api stage w path asOverride = Some (r, w', s') \<longleftrightarrow>
               (\<exists>qs s2. walks_up api ?sd (GetParent api ?sd ?pd) qs s2
                  \<and> s' = warnIfInvalid api s2 (Some ?pd) True path)
               \<and> w' = w\<lparr>m_usdXformForWrite := Some ?pd\<rparr>
               \<and> r = schema_bool api s' (Some ?pd)" for r w' s'
  proof
    assume a: "initUsdPrim api stage w path asOverride = Some (r, w', s')"
    with c obtain s2 where s2: "defineAncestors api ?sd (GetParent api ?sd ?pd) = Some s2"
      and r: "s' = warnIfInvalid api s2 (Some ?pd) True path"
             "w' = w\<lparr>m_usdXformForWrite := Some ?pd\<rparr>" "r = schema_bool api s' (Some ?pd)"
      by (auto simp: initUsdPrim_override_new Let_def split: option.splits)
    from defineAncestors_walks_up[OF s2] r
    show "(\<exists>qs s2. walks_up api ?sd (GetParent api ?sd ?pd) qs s2
                  \<and> s' = warnIfInvalid api s2 (Some ?pd) True path)
               \<and> w' = w\<lparr>m_usdXformForWrite := Some ?pd\<rparr>
               \<and> r = schema_bool api s' (Some ?pd)" by blast
  next
    assume "(\<exists>qs s2. walks_up api ?sd (GetParent api ?sd ?pd) qs s2
                  \<and> s' = warnIfInvalid api s2 (Some ?pd) True path)
               \<and> w' = w\<lparr>m_usdXformForWrite := Some ?pd\<rparr>
               \<and> r = schema_bool api s' (Some ?pd)"
    then obtain qs s2 where "walks_up api ?sd (GetParent api ?sd ?pd) qs s2"
      and r: "s' = warnIfInvalid api s2 (Some ?pd) True path"
             "w' = w\<lparr>m_usdXformForWrite := Some ?pd\<rparr>" "r = schema_bool api s' (Some ?pd)"
      by blast
    from walks_up_defineAncestors[OF this(1)] c r
    show "initUsdPrim api stage w path asOverride = Some (r, w', s')"
      by (simp add: initUsdPrim_override_new Let_def)
  qed
  then show "let pd = fst (UsdGeomXform_Define api stage path);
           sd = snd (UsdGeomXform_Define api stage path)
       in (\<forall>r w' s'.
             initUsdPrim api stage w path asOverride = Some (r, w', s') \<longleftrightarrow>
               (\<exists>qs s2. walks_up api sd (GetParent api sd pd) qs s2
                  \<and> s' = warnIfInvalid api s2 (Some pd) True path)
               \<and> w' = w\<lparr>m_usdXformForWrite := Some pd\<rparr>
               \<and> r = schema_bool api s' (Some pd))"
    unfolding Let_def by blast
next
  assume "\<forall>s s' q. IsValid api s q \<longrightarrow> depth (GetParent api s' q) < depth q"
  then show "\<exists>r w' s'. initUsdPrim api stage w path asOverride = Some (r, w', s')"
    using initUsdPrim_returns[of api depth stage w path asOverride] by blast
next
  show "\<forall>r w' s'. initUsdPrim api stage w path asOverride = Some (r, w', s') \<longrightarrow>
        r = schema_bool api s' (m_usdXformForWrite w')"
    by (intro allI impI) (erule initUsdPrim_result_bool)
qed

text \<open>
  The three cases run on the stage \<open>demo_stage\<close>: an override of the existing prim
  \<^verbatim>\<open>/a/b\<close>; a new prim \<^verbatim>\<open>/a/b/c\<close> without override; and an override at \<^verbatim>\<open>/x/y\<close>
  where no prim is, which defines \<^verbatim>\<open>/x/y\<close> and then walks up through the new, untyped
  \<^verbatim>\<open>/x\<close>. An override at \<^verbatim>\<open>/p/q/r\<close> returns as well.
\<close>

theorem initUsdPrim_cases_run:
  "initUsdPrim memApi demo_stage demo_wrapper [''a'', ''b''] True
     = Some (True, demo_wrapper\<lparr>m_usdXformForWrite := Some (Some [''a'', ''b''])\<rparr>, demo_stage)
   \<and> initUsdPrim memApi demo_stage demo_wrapper [''a'', ''b'', ''c''] False
     = Some (True, demo_wrapper\<lparr>m_usdXformForWrite := Some (Some [''a'', ''b'', ''c''])\<rparr>,
         demo_stage\<lparr>prims := ([''a'', ''b'', ''c''], ''Xform'') # prims demo_stage\<rparr>)
   \<and> initUsdPrim memApi demo_stage demo_wrapper [''x'', ''y''] True
     = Some (True, demo_wrapper\<lparr>m_usdXformForWrite := Some (Some [''x'', ''y''])\<rparr>,
         demo_stage\<lparr>prims := ([''x''], ''Xform'') # ([''x'', ''y''], ''Xform'') # ([''x''], [])
                               # prims demo_stage\<rparr>)
   \<and> (\<exists>qs s2.
         walks_up memApi
           (demo_stage\<lparr>prims := ([''x'', ''y''], ''Xform'') # ([''x''], []) # prims demo_stage\<rparr>)
           (Some [''x'']) qs s2
         \<and> demo_stage\<lparr>prims := ([''x''], ''Xform'') # ([''x'', ''y''], ''Xform'') # ([''x''], [])
                                # prims demo_stage\<rparr>
             = warnIfInvalid memApi s2 (Some (Some [''x'', ''y''])) True [''x'', ''y''])
   \<and> (\<exists>r w' s'. initUsdPrim memApi demo_stage demo_wrapper [''p'', ''q'', ''r''] True
          = Some (r, w', s'))"
proof (intro conjI)
  have pre: "True \<and> IsValid memApi demo_stage (GetPrimAtPath memApi demo_stage [''a'', ''b''])"
    by code_simp
  have po: "fst (OverridePrim memApi demo_stage [''a'', ''b'']) = Some [''a'', ''b'']"
    by code_simp
  have so: "snd (OverridePrim memApi demo_stage [''a'', ''b'']) = demo_stage"
    by code_simp
  have w: "warnIfInvalid memApi demo_stage (Some (Some [''a'', ''b''])) False [''a'', ''b''] = demo_stage"
    by code_simp
  have b: "schema_bool memApi demo_stage (Some (Some [''a'', ''b'']))"
    by code_simp
  from initUsdPrim_cases[of True memApi demo_stage "[''a'', ''b'']" demo_wrapper mem_depth,
      THEN conjunct1, THEN mp, OF pre]
  show "initUsdPrim memApi demo_stage demo_wrapper [''a'', ''b''] True
     = Some (True, demo_wrapper\<lparr>m_usdXformForWrite := Some (Some [''a'', ''b''])\<rparr>, demo_stage)"
    by (simp add: Let_def po so w b)
next
  let ?s1 = "demo_stage\<lparr>prims := ([''a'', ''b'', ''c''], ''Xform'') # prims demo_stage\<rparr>"
  have pd: "fst (UsdGeomXform_Define memApi demo_stage [''a'', ''b'', ''c'']) = Some [''a'', ''b'', ''c'']"
    by code_simp
  have sd: "snd (UsdGeomXform_Define memApi demo_stage [''a'', ''b'', ''c'']) = ?s1"
    by code_simp
  have w: "warnIfInvalid memApi ?s1 (Some (Some [''a'', ''b'', ''c''])) True [''a'', ''b'', ''c''] = ?s1"
    by code_simp
  have b: "schema_bool memApi ?s1 (Some (Some [''a'', ''b'', ''c'']))"
    by code_simp
  have pre: "\<not> False" by simp
  from initUsdPrim_cases[of False memApi demo_stage "[''a'', ''b'', ''c'']" demo_wrapper mem_depth,
      THEN conjunct2, THEN conjunct1, THEN mp, OF pre]
  show "initUsdPrim memApi demo_stage demo_wrapper [''a'', ''b'', ''c''] False
     = Some (True, demo_wrapper\<lparr>m_usdXformForWrite := Some (Some [''a'', ''b'', ''c''])\<rparr>, ?s1)"
    by (simp add: Let_def pd sd w b)
next
  let ?sd = "demo_stage\<lparr>prims := ([''x'', ''y''], ''Xform'') # ([''x''], []) # prims demo_stage\<rparr>"
  let ?sf = "demo_stage\<lparr>prims := ([''x''], ''Xform'') # ([''x'', ''y''], ''Xform'') # ([''x''], [])
                               # prims demo_stage\<rparr>"
  show run: "initUsdPrim memApi demo_stage demo_wrapper [''x'', ''y''] True
     = Some (True, demo_wrapper\<lparr>m_usdXformForWrite := Some (Some [''x'', ''y''])\<rparr>, ?sf)"
    by code_simp
  have pre: "True \<and> \<not> IsValid memApi demo_stage (GetPrimAtPath memApi demo_stage [''x'', ''y''])"
    by code_simp
  have pd: "fst (UsdGeomXform_Define memApi demo_stage [''x'', ''y'']) = Some [''x'', ''y'']"
    by code_simp
  have sd: "snd (UsdGeomXform_Define memApi demo_stage [''x'', ''y'']) = ?sd"
    by code_simp
  have par: "GetParent memApi ?sd (Some [''x'', ''y'']) = Some [''x'']"
    by code_simp
  note iff = initUsdPrim_cases[of True memApi demo_stage "[''x'', ''y'']" demo_wrapper mem_depth,
      THEN conjunct2, THEN conjunct2, THEN conjunct1, THEN mp, OF pre,
      unfolded Let_def pd sd par, rule_format]
  from iff[THEN iffD1, OF run]
  show "\<exists>qs s2. walks_up memApi ?sd (Some [''x'']) qs s2
         \<and> ?sf = warnIfInvalid memApi s2 (Some (Some [''x'', ''y''])) True [''x'', ''y'']"
    by (rule conjunct1)
next
  have d: "\<forall>s s' q. IsValid memApi s q \<longrightarrow> mem_depth (GetParent memApi s' q) < mem_depth q"
    using mem_depth_decreases by blast
  from initUsdPrim_cases[of True memApi demo_stage "[''p'', ''q'', ''r'']" demo_wrapper mem_depth,
      THEN conjunct2, THEN conjunct2, THEN conjunct2, THEN conjunct1, THEN mp, OF d]
  show "\<exists>r w' s'. initUsdPrim memApi demo_stage demo_wrapper [''p'', ''q'', ''r''] True
          = Some (r, w', s')" .
qed

text \<open>
  C1: in the override case with no prim at the path, \<^verbatim>\<open>initUsdPrim\<close> is to define an
  Xform at \<^emph>\<open>every\<close> ancestor prim whose type name is empty; the comment at line 104 says
  the same of the loop (\<^verbatim>\<open>// Make sure our ancestors have proper types.\<close>). The code
  misses a case. On the stage with an untyped \<^verbatim>\<open>/a\<close> above a typed \<^verbatim>\<open>/a/b\<close>,
  \<^verbatim>\<open>initUsdPrim( stage, /a/b/c, true )\<close> finds no prim at \<^verbatim>\<open>/a/b/c\<close>, defines the Xform
  there and returns \<^verbatim>\<open>true\<close>, but the loop guard fails at once at the parent \<^verbatim>\<open>/a/b\<close>,
  which has a type name: \<^verbatim>\<open>/a\<close>, a valid ancestor with an empty type name, still has
  an empty type name afterwards.
\<close>

theorem initUsdPrim_leaves_untyped_ancestor:
  "initUsdPrim memApi
     \<lparr>prims = [([''a''], []), ([''a'', ''b''], ''Scope'')], warnings = []\<rparr>
     \<lparr>groupBase = (), m_usdXformForWrite = None,
      m_usdXformForRead = (None :: (SdfPath option option \<times> unit) option),
      m_stageProxy = (None :: unit option)\<rparr>
     [''a'', ''b'', ''c''] True
   = Some (True,
       \<lparr>groupBase = (), m_usdXformForWrite = Some (Some [''a'', ''b'', ''c'']),
        m_usdXformForRead = None, m_stageProxy = None\<rparr>,
       \<lparr>prims = [([''a'', ''b'', ''c''], ''Xform''), ([''a''], []), ([''a'', ''b''], ''Scope'')],
        warnings = []\<rparr>)
   \<and> \<not> IsValid memApi \<lparr>prims = [([''a''], []), ([''a'', ''b''], ''Scope'')], warnings = []\<rparr>
         (GetPrimAtPath memApi
            \<lparr>prims = [([''a''], []), ([''a'', ''b''], ''Scope'')], warnings = []\<rparr>
            [''a'', ''b'', ''c''])
   \<and> GetParent memApi \<lparr>prims = [([''a''], []), ([''a'', ''b''], ''Scope'')], warnings = []\<rparr>
         (GetParent memApi \<lparr>prims = [([''a''], []), ([''a'', ''b''], ''Scope'')], warnings = []\<rparr>
            (Some [''a'', ''b'', ''c''])) = Some [''a'']
   \<and> IsValid memApi \<lparr>prims = [([''a''], []), ([''a'', ''b''], ''Scope'')], warnings = []\<rparr>
         (Some [''a''])
   \<and> IsEmpty (GetTypeName memApi
         \<lparr>prims = [([''a''], []), ([''a'', ''b''], ''Scope'')], warnings = []\<rparr> (Some [''a'']))
   \<and> IsEmpty (GetTypeName memApi
         \<lparr>prims = [([''a'', ''b'', ''c''], ''Xform''), ([''a''], []), ([''a'', ''b''], ''Scope'')],
          warnings = []\<rparr> (Some [''a'']))"
  by code_simp

subsection \<open>isValid, updateFromGTPrim, redefine\<close>

text \<open>
  C2: \<^verbatim>\<open>isValid\<close> is the conversion to \<^verbatim>\<open>bool\<close> of the write-side Xformable and
  nothing else: changing the read-side holder or the stage proxy does not change it,
  and on every wrapper that \<^verbatim>\<open>defineForRead\<close> returns it is \<^verbatim>\<open>false\<close>.
\<close>

theorem isValid_write_side_only:
  "isValid api stage w = schema_bool api stage (m_usdXformForWrite w)
   \<and> isValid api stage (w\<lparr>m_usdXformForRead := h\<rparr>) = isValid api stage w
   \<and> isValid api stage (w\<lparr>m_stageProxy := x\<rparr>) = isValid api stage w
   \<and> isValid api stage (defineForRead baseCtor GetLock proxy sourcePrim time purposes) = False"
  by (simp add: isValid_def defineForRead_def GusdXformWrapper_forRead_def schema_bool_def)

text \<open>
  A wrapper made for reading from the valid prim \<^verbatim>\<open>/a/b\<close>: its read side holds that
  prim, and \<^verbatim>\<open>isValid\<close> is \<^verbatim>\<open>false\<close>.
\<close>

theorem isValid_write_side_only_run:
  "schema_bool memApi demo_stage (Some (Some [''a'', ''b'']))
   \<and> m_usdXformForRead (defineForRead (\<lambda>t u. t + u) (\<lambda>x. ()) () (Some (Some [''a'', ''b''])) (1::nat) 2)
       = Some (Some (Some [''a'', ''b'']), ())
   \<and> isValid memApi demo_stage
         (defineForRead (\<lambda>t u. t + u) (\<lambda>x. ()) () (Some (Some [''a'', ''b''])) (1::nat) 2) = False"
proof (intro conjI)
  show "schema_bool memApi demo_stage (Some (Some [''a'', ''b'']))" by code_simp
  show "m_usdXformForRead (defineForRead (\<lambda>t u. t + u) (\<lambda>x. ()) () (Some (Some [''a'', ''b''])) (1::nat) 2)
       = Some (Some (Some [''a'', ''b'']), ())"
    by (simp add: defineForRead_def GusdXformWrapper_forRead_def UsdGeomXform_def GetPrim_def)
  show "isValid memApi demo_stage
         (defineForRead (\<lambda>t u. t + u) (\<lambda>x. ()) () (Some (Some [''a'', ''b''])) (1::nat) 2) = False"
    using isValid_write_side_only[of memApi demo_stage _ _ _ "\<lambda>t u. t + u" "\<lambda>x. ()" "()"
        "Some (Some [''a'', ''b''])" "1::nat" "2::nat"]
    by (rule conjunct2 [THEN conjunct2, THEN conjunct2])
qed

text \<open>
  C3: when the write-side Xformable does not convert to \<^verbatim>\<open>true\<close>,
  \<^verbatim>\<open>updateFromGTPrim\<close> returns \<^verbatim>\<open>false\<close> and leaves the stage, the wrapper and the
  transform cache as they were; otherwise its result, and the stage, base sub-object
  and cache it leaves, are those of \<^verbatim>\<open>updateGroupFromGTPrim\<close> called with the
  write-side Xformable and the same four arguments.
\<close>

theorem updateFromGTPrim_guard:
  "(\<not> schema_bool api stage (m_usdXformForWrite w) \<longrightarrow>
      updateFromGTPrim api updateGroupFromGTPrim stage w sourcePrim localXform ctxt xformCache
        = (False, stage, w, xformCache))
   \<and> (schema_bool api stage (m_usdXformForWrite w) \<longrightarrow>
      (let res = updateGroupFromGTPrim stage (groupBase w) (m_usdXformForWrite w)
                   sourcePrim localXform ctxt xformCache
       in updateFromGTPrim api updateGroupFromGTPrim stage w sourcePrim localXform ctxt xformCache
            = (fst res, fst (snd res), w\<lparr>groupBase := fst (snd (snd res))\<rparr>, snd (snd (snd res)))))"
  by (simp add: updateFromGTPrim_def Let_def split_beta)

text \<open>
  Both branches, with an \<^verbatim>\<open>updateGroupFromGTPrim\<close> that returns the transform it is
  given, clears the warnings and counts its calls in the base sub-object and the cache.
\<close>

theorem updateFromGTPrim_guard_run:
  "updateFromGTPrim memApi (\<lambda>s b x g m c k. (m, s\<lparr>warnings := []\<rparr>, Suc b, Suc k))
      (demo_stage\<lparr>warnings := [([], [], [])]\<rparr>) demo_wrapper () True \<lparr>overlayGeo = True\<rparr> (5::nat)
     = (False, demo_stage\<lparr>warnings := [([], [], [])]\<rparr>, demo_wrapper, 5)
   \<and> updateFromGTPrim memApi (\<lambda>s b x g m c k. (m, s\<lparr>warnings := []\<rparr>, Suc b, Suc k))
      (demo_stage\<lparr>warnings := [([], [], [])]\<rparr>)
      (demo_wrapper\<lparr>m_usdXformForWrite := Some (Some [''a''])\<rparr>) () True \<lparr>overlayGeo = True\<rparr> (5::nat)
     = (True, demo_stage, demo_wrapper\<lparr>m_usdXformForWrite := Some (Some [''a'']), groupBase := 1\<rparr>, 6)"
proof (intro conjI)
  let ?S = "demo_stage\<lparr>warnings := [([], [], [])]\<rparr>"
  let ?upd = "\<lambda>(s::mem_stage) (b::nat) (x::SdfPath option option) (g::unit) (m::bool)
                (c::GusdContext) (k::nat). (m, s\<lparr>warnings := []\<rparr>, Suc b, Suc k)"
  have inv: "\<not> schema_bool memApi ?S (m_usdXformForWrite demo_wrapper)" by code_simp
  from updateFromGTPrim_guard[of memApi ?S demo_wrapper ?upd "()" True "\<lparr>overlayGeo = True\<rparr>" 5,
      THEN conjunct1, THEN mp, OF inv]
  show "updateFromGTPrim memApi ?upd ?S demo_wrapper () True \<lparr>overlayGeo = True\<rparr> (5::nat)
     = (False, ?S, demo_wrapper, 5)" .
  let ?W = "demo_wrapper\<lparr>m_usdXformForWrite := Some (Some [''a''])\<rparr>"
  have val: "schema_bool memApi ?S (m_usdXformForWrite ?W)" by code_simp
  have st: "?S\<lparr>warnings := []\<rparr> = demo_stage" by code_simp
  have b: "groupBase demo_wrapper = 0" by code_simp
  from updateFromGTPrim_guard[of memApi ?S ?W ?upd "()" True "\<lparr>overlayGeo = True\<rparr>" 5,
      THEN conjunct2, THEN mp, OF val]
  show "updateFromGTPrim memApi ?upd ?S ?W () True \<lparr>overlayGeo = True\<rparr> (5::nat)
     = (True, demo_stage, demo_wrapper\<lparr>m_usdXformForWrite := Some (Some [''a'']), groupBase := 1\<rparr>, 6)"
    by (simp add: Let_def st b)
qed

text \<open>
  C4: whatever \<^verbatim>\<open>initUsdPrim\<close> returns, \<^verbatim>\<open>redefine\<close> returns \<^verbatim>\<open>true\<close>; the wrapper
  it leaves is the one \<^verbatim>\<open>initUsdPrim( stage, path, ctxt.overlayGeo )\<close> leaves with its
  caches cleared, and the stage is the one \<^verbatim>\<open>initUsdPrim\<close> leaves. It returns on every
  stage where the parent of a valid prim is less deep than the prim.
\<close>

theorem redefine_returns_true:
  fixes depth :: "'p \<Rightarrow> nat"
  shows
  "(\<forall>r w1 s1. initUsdPrim api stage w path (overlayGeo ctxt) = Some (r, w1, s1) \<longrightarrow>
       redefine api clearCaches stage w path ctxt sourcePrim
         = Some (True, w1\<lparr>groupBase := clearCaches (groupBase w1)\<rparr>, s1))
   \<and> ((\<forall>s s' q. IsValid api s q \<longrightarrow> depth (GetParent api s' q) < depth q) \<longrightarrow>
        (\<exists>w' s'. redefine api clearCaches stage w path ctxt sourcePrim = Some (True, w', s')))"
proof (intro conjI impI allI)
  fix r w1 s1
  assume "initUsdPrim api stage w path (overlayGeo ctxt) = Some (r, w1, s1)"
  then show "redefine api clearCaches stage w path ctxt sourcePrim
         = Some (True, w1\<lparr>groupBase := clearCaches (groupBase w1)\<rparr>, s1)"
    by (simp add: redefine_def)
next
  assume d: "\<forall>s s' q. IsValid api s q \<longrightarrow> depth (GetParent api s' q) < depth q"
  have "\<exists>r w1 s1. initUsdPrim api stage w path (overlayGeo ctxt) = Some (r, w1, s1)"
    by (rule initUsdPrim_returns[where depth = depth]) (use d in blast)
  then obtain r w1 s1 where "initUsdPrim api stage w path (overlayGeo ctxt) = Some (r, w1, s1)"
    by blast
  then show "\<exists>w' s'. redefine api clearCaches stage w path ctxt sourcePrim = Some (True, w', s')"
    by (simp add: redefine_def)
qed

text \<open>
  On a path USD refuses (an empty element name) \<^verbatim>\<open>initUsdPrim\<close> warns and returns
  \<^verbatim>\<open>false\<close>, and \<^verbatim>\<open>redefine\<close> returns \<^verbatim>\<open>true\<close> all the same.
\<close>

theorem redefine_returns_true_run:
  "initUsdPrim memApi demo_stage demo_wrapper [''x'', [], ''z''] False
     = Some (False, demo_wrapper\<lparr>m_usdXformForWrite := Some None\<rparr>,
         demo_stage\<lparr>warnings := [(''Unable to create %s xform '%s'.'', ''new'', [''x'', [], ''z''])]\<rparr>)
   \<and> redefine memApi (\<lambda>b. b + 7) demo_stage demo_wrapper [''x'', [], ''z'']
        \<lparr>overlayGeo = False\<rparr> ()
     = Some (True, demo_wrapper\<lparr>m_usdXformForWrite := Some None, groupBase := 7\<rparr>,
         demo_stage\<lparr>warnings := [(''Unable to create %s xform '%s'.'', ''new'', [''x'', [], ''z''])]\<rparr>)
   \<and> (\<exists>w' s'. redefine memApi (\<lambda>b. b + 7) demo_stage demo_wrapper [''x'', ''y'']
        \<lparr>overlayGeo = True\<rparr> () = Some (True, w', s'))"
proof (intro conjI)
  let ?S = "demo_stage\<lparr>warnings := [(''Unable to create %s xform '%s'.'', ''new'', [''x'', [], ''z''])]\<rparr>"
  show run: "initUsdPrim memApi demo_stage demo_wrapper [''x'', [], ''z''] False
     = Some (False, demo_wrapper\<lparr>m_usdXformForWrite := Some None\<rparr>, ?S)"
    by code_simp
  have run': "initUsdPrim memApi demo_stage demo_wrapper [''x'', [], ''z'']
       (overlayGeo \<lparr>overlayGeo = False\<rparr>)
     = Some (False, demo_wrapper\<lparr>m_usdXformForWrite := Some None\<rparr>, ?S)"
    using run by simp
  have b: "clearCaches (groupBase (demo_wrapper\<lparr>m_usdXformForWrite := Some None\<rparr>)) = 7"
    if "clearCaches = (\<lambda>b::nat. b + 7)" for clearCaches
    using that by (simp add: demo_wrapper_def)
  from redefine_returns_true[of memApi demo_stage demo_wrapper "[''x'', [], ''z'']"
      "\<lparr>overlayGeo = False\<rparr>" "\<lambda>b. b + 7" "()" mem_depth,
      THEN conjunct1, rule_format, OF run']
  show "redefine memApi (\<lambda>b. b + 7) demo_stage demo_wrapper [''x'', [], ''z'']
        \<lparr>overlayGeo = False\<rparr> ()
     = Some (True, demo_wrapper\<lparr>m_usdXformForWrite := Some None, groupBase := 7\<rparr>, ?S)"
    by (simp add: demo_wrapper_def)
  have d: "\<forall>s s' q. IsValid memApi s q \<longrightarrow> mem_depth (GetParent memApi s' q) < mem_depth q"
    using mem_depth_decreases by blast
  from redefine_returns_true[of memApi demo_stage demo_wrapper "[''x'', ''y'']"
      "\<lparr>overlayGeo = True\<rparr>" "\<lambda>b. b + 7" "()" mem_depth,
      THEN conjunct2, THEN mp, OF d]
  show "\<exists>w' s'. redefine memApi (\<lambda>b. b + 7) demo_stage demo_wrapper [''x'', ''y'']
        \<lparr>overlayGeo = True\<rparr> () = Some (True, w', s')" .
qed

subsection \<open>defineForWrite, defineForRead\<close>

text \<open>
  C8: \<^verbatim>\<open>defineForWrite\<close> returns the wrapper that
  \<^verbatim>\<open>initUsdPrim( stage, path, ctxt.overlayGeo )\<close> leaves when run on a wrapper whose
  members are all default-constructed; the source primitive does not matter, and of
  the context only \<^verbatim>\<open>overlayGeo\<close> does.
\<close>

theorem defineForWrite_from_overlayGeo:
  "defineForWrite api base0 sourcePrim stage path ctxt
     = map_option (\<lambda>(r, w, s'). (w, s'))
         (initUsdPrim api stage
            \<lparr>groupBase = base0, m_usdXformForWrite = None,
             m_usdXformForRead = None, m_stageProxy = None\<rparr> path (overlayGeo ctxt))
   \<and> defineForWrite api base0 sourcePrim' stage path ctxt
       = defineForWrite api base0 sourcePrim stage path ctxt
   \<and> (overlayGeo ctxt' = overlayGeo ctxt \<longrightarrow>
        defineForWrite api base0 sourcePrim' stage path ctxt'
          = defineForWrite api base0 sourcePrim stage path ctxt)"
  by (auto simp: defineForWrite_def GusdXformWrapper_forWrite_def split: option.splits)

text \<open>
  Two calls with different source primitives and contexts that agree on
  \<^verbatim>\<open>overlayGeo\<close>.
\<close>

theorem defineForWrite_from_overlayGeo_run:
  "defineForWrite memApi (0::nat) (''a box'') demo_stage [''a'', ''b''] \<lparr>overlayGeo = True\<rparr>
     = Some (demo_wrapper\<lparr>m_usdXformForWrite := Some (Some [''a'', ''b''])\<rparr>, demo_stage)
   \<and> defineForWrite memApi (0::nat) (3::int) demo_stage [''a'', ''b'']
        \<lparr>overlayGeo = True, \<dots> = ''other members''\<rparr>
     = Some (demo_wrapper\<lparr>m_usdXformForWrite := Some (Some [''a'', ''b''])\<rparr>, demo_stage)"
proof -
  have run: "initUsdPrim memApi demo_stage
            \<lparr>groupBase = (0::nat), m_usdXformForWrite = None,
             m_usdXformForRead = (None :: (SdfPath option option \<times> unit) option),
             m_stageProxy = (None :: unit option)\<rparr> [''a'', ''b''] True
     = Some (True, demo_wrapper\<lparr>m_usdXformForWrite := Some (Some [''a'', ''b''])\<rparr>, demo_stage)"
    by code_simp
  have "defineForWrite memApi (0::nat) (''a box'') demo_stage [''a'', ''b''] \<lparr>overlayGeo = True\<rparr>
     = map_option (\<lambda>(r, w, s'). (w, s'))
         (initUsdPrim memApi demo_stage
            \<lparr>groupBase = (0::nat), m_usdXformForWrite = None,
             m_usdXformForRead = (None :: (SdfPath option option \<times> unit) option),
             m_stageProxy = (None :: unit option)\<rparr> [''a'', ''b'']
            (overlayGeo \<lparr>overlayGeo = True\<rparr>))"
    by (rule defineForWrite_from_overlayGeo[THEN conjunct1])
  with run have 1:
    "defineForWrite memApi (0::nat) (''a box'') demo_stage [''a'', ''b''] \<lparr>overlayGeo = True\<rparr>
     = Some (demo_wrapper\<lparr>m_usdXformForWrite := Some (Some [''a'', ''b''])\<rparr>, demo_stage)"
    by simp
  have same: "overlayGeo \<lparr>overlayGeo = True, \<dots> = ''other members''\<rparr>
      = overlayGeo \<lparr>overlayGeo = True\<rparr>"
    by simp
  have "defineForWrite memApi (0::nat) (3::int) demo_stage [''a'', ''b'']
        \<lparr>overlayGeo = True, \<dots> = ''other members''\<rparr>
     = (defineForWrite memApi (0::nat) (''a box'') demo_stage [''a'', ''b''] \<lparr>overlayGeo = True\<rparr>
         :: ((nat, SdfPath option, unit, unit) GusdXformWrapper \<times> mem_stage) option)"
    by (rule defineForWrite_from_overlayGeo[THEN conjunct2, THEN conjunct2, THEN mp, OF same])
  with 1 show ?thesis by simp
qed

text \<open>
  C9: the wrapper \<^verbatim>\<open>defineForRead\<close> returns holds, on its read side,
  \<^verbatim>\<open>UsdGeomXform( sourcePrim.GetPrim() )\<close> with the lock of the stage proxy; it holds
  the stage proxy; its base sub-object is the one constructed from the time and the
  purposes; its write-side Xformable is default-constructed.
\<close>

theorem defineForRead_members:
  "m_usdXformForRead (defineForRead baseCtor GetLock stage sourcePrim time purposes)
     = Some (UsdGeomXform (GetPrim sourcePrim), GetLock stage)
   \<and> m_stageProxy (defineForRead baseCtor GetLock stage sourcePrim time purposes) = Some stage
   \<and> groupBase (defineForRead baseCtor GetLock stage sourcePrim time purposes)
       = baseCtor time purposes
   \<and> m_usdXformForWrite (defineForRead baseCtor GetLock stage sourcePrim time purposes) = None"
  by (simp add: defineForRead_def GusdXformWrapper_forRead_def)

subsection \<open>enlargeBounds, getMotionSegments, getMemoryUsage\<close>

text \<open>
  C10: \<^verbatim>\<open>enlargeBounds\<close> leaves the array of boxes as it was, for every array and
  segment count; \<^verbatim>\<open>getMotionSegments\<close> returns 1 and \<^verbatim>\<open>getMemoryUsage\<close> returns 0.
\<close>

theorem enlargeBounds_noop:
  "enlargeBounds w boxes nsegments = boxes \<and> getMotionSegments w = 1 \<and> getMemoryUsage w = 0"
  by (simp add: enlargeBounds_def getMotionSegments_def getMemoryUsage_def)

subsection \<open>HdMesh accessors\<close>

text \<open>
  C6: each of \<^verbatim>\<open>IsDoubleSided\<close>, \<^verbatim>\<open>GetCullStyle\<close>, \<^verbatim>\<open>GetMeshTopology\<close>,
  \<^verbatim>\<open>GetRefineLevel\<close> and \<^verbatim>\<open>GetSubdivTags\<close> returns what one call of the delegate's
  \<^verbatim>\<open>GetDoubleSided\<close>, \<^verbatim>\<open>GetCullStyle\<close>, \<^verbatim>\<open>GetMeshTopology\<close>, \<^verbatim>\<open>GetRefineLevel\<close>,
  \<^verbatim>\<open>GetSubdivTags\<close> with \<^verbatim>\<open>GetId()\<close> returns, leaves the delegate as that call leaves
  it, and leaves the mesh and the static repr configuration as they were.
\<close>

theorem HdMesh_accessors_delegate:
  "HdMesh_IsDoubleSided rprim dl W
     = (fst (GetDoubleSided dl (delegate W) (GetId rprim (mesh W))),
        W\<lparr>delegate := snd (GetDoubleSided dl (delegate W) (GetId rprim (mesh W)))\<rparr>)
   \<and> HdMesh_GetCullStyle rprim dl W
     = (fst (GetCullStyle dl (delegate W) (GetId rprim (mesh W))),
        W\<lparr>delegate := snd (GetCullStyle dl (delegate W) (GetId rprim (mesh W)))\<rparr>)
   \<and> HdMesh_GetMeshTopology rprim dl W
     = (fst (GetMeshTopology dl (delegate W) (GetId rprim (mesh W))),
        W\<lparr>delegate := snd (GetMeshTopology dl (delegate W) (GetId rprim (mesh W)))\<rparr>)
   \<and> HdMesh_GetRefineLevel rprim dl W
     = (fst (GetRefineLevel dl (delegate W) (GetId rprim (mesh W))),
        W\<lparr>delegate := snd (GetRefineLevel dl (delegate W) (GetId rprim (mesh W)))\<rparr>)
   \<and> HdMesh_GetSubdivTags rprim dl W
     = (fst (GetSubdivTags dl (delegate W) (GetId rprim (mesh W))),
        W\<lparr>delegate := snd (GetSubdivTags dl (delegate W) (GetId rprim (mesh W)))\<rparr>)
   \<and> mesh (snd (HdMesh_IsDoubleSided rprim dl W)) = mesh W
   \<and> mesh (snd (HdMesh_GetCullStyle rprim dl W)) = mesh W
   \<and> mesh (snd (HdMesh_GetMeshTopology rprim dl W)) = mesh W
   \<and> mesh (snd (HdMesh_GetRefineLevel rprim dl W)) = mesh W
   \<and> mesh (snd (HdMesh_GetSubdivTags rprim dl W)) = mesh W
   \<and> reprDescConfig (snd (HdMesh_IsDoubleSided rprim dl W)) = reprDescConfig W
   \<and> reprDescConfig (snd (HdMesh_GetCullStyle rprim dl W)) = reprDescConfig W
   \<and> reprDescConfig (snd (HdMesh_GetMeshTopology rprim dl W)) = reprDescConfig W
   \<and> reprDescConfig (snd (HdMesh_GetRefineLevel rprim dl W)) = reprDescConfig W
   \<and> reprDescConfig (snd (HdMesh_GetSubdivTags rprim dl W)) = reprDescConfig W"
  by (simp add: HdMesh_IsDoubleSided_def HdMesh_GetCullStyle_def HdMesh_GetMeshTopology_def
      HdMesh_GetRefineLevel_def HdMesh_GetSubdivTags_def split_beta)

text \<open>
  C7: \<^verbatim>\<open>GetPoints\<close> is \<^verbatim>\<open>GetPrimVar(delegate, HdTokens->points)\<close> and \<^verbatim>\<open>GetNormals\<close>
  is \<^verbatim>\<open>GetPrimVar(delegate, HdTokens->normals)\<close>: the value and the delegate are those
  of that one call, and the mesh and the static repr configuration stay as they were.
\<close>

theorem HdMesh_primvar_accessors:
  "HdMesh_GetPoints rprim HdTokens W
     = (fst (GetPrimVar rprim (mesh W) (delegate W) (points HdTokens)),
        W\<lparr>delegate := snd (GetPrimVar rprim (mesh W) (delegate W) (points HdTokens))\<rparr>)
   \<and> HdMesh_GetNormals rprim HdTokens W
     = (fst (GetPrimVar rprim (mesh W) (delegate W) (normals HdTokens)),
        W\<lparr>delegate := snd (GetPrimVar rprim (mesh W) (delegate W) (normals HdTokens))\<rparr>)
   \<and> mesh (snd (HdMesh_GetPoints rprim HdTokens W)) = mesh W
   \<and> mesh (snd (HdMesh_GetNormals rprim HdTokens W)) = mesh W
   \<and> reprDescConfig (snd (HdMesh_GetPoints rprim HdTokens W)) = reprDescConfig W
   \<and> reprDescConfig (snd (HdMesh_GetNormals rprim HdTokens W)) = reprDescConfig W"
  by (simp add: HdMesh_GetPoints_def HdMesh_GetNormals_def split_beta)

end
